theory Spec2Isabelle
  imports Complex_Main
begin

text \<open>
  A model of the index performance tester: the result and query records of models.py,
  the measurement harness of tester.py with its reducer, the formatters, and the
  orchestration loops of main.py. Exceptions are values of a sum type, the server is a
  function of the history of the operations sent to it, and every loop is a recursive
  function. The properties of the specification follow the definitions.
\<close>

section \<open>Exceptions and values\<close>

text \<open>
  The exceptions the program can meet. \<open>ConnectionFailure\<close> is a subclass of
  \<open>PyMongoError\<close> in the driver, which \<open>is_PyMongoError\<close> records. The string is
  the exception's message, what \<open>str(e)\<close> gives; \<open>SystemExit\<close> carries the exit
  status.
\<close>

datatype exn =
    PyMongoError string
  | ConnectionFailure string
  | TypeError string
  | ValueError string
  | KeyError string
  | IndexError string
  | AttributeError string
  | StatisticsError string
  | NameError string
  | SystemExit int
  | OtherError string

fun is_PyMongoError :: "exn \<Rightarrow> bool" where
  "is_PyMongoError (PyMongoError m) = True"
| "is_PyMongoError (ConnectionFailure m) = True"
| "is_PyMongoError e = False"

fun is_ConnectionFailure :: "exn \<Rightarrow> bool" where
  "is_ConnectionFailure (ConnectionFailure m) = True"
| "is_ConnectionFailure e = False"

fun str_exn :: "exn \<Rightarrow> string" where
  "str_exn (PyMongoError m) = m"
| "str_exn (ConnectionFailure m) = m"
| "str_exn (TypeError m) = m"
| "str_exn (ValueError m) = m"
| "str_exn (KeyError m) = m"
| "str_exn (IndexError m) = m"
| "str_exn (AttributeError m) = m"
| "str_exn (StatisticsError m) = m"
| "str_exn (NameError m) = m"
| "str_exn (SystemExit n) = []"
| "str_exn (OtherError m) = m"

text \<open>Documents of the store: the values a filter or a projection is made of.\<close>

datatype bson =
    BNull
  | BBool bool
  | BInt int
  | BStr string
  | BList "bson list"
  | BDoc "(string \<times> bson) list"

type_synonym document = "(string \<times> bson) list"

text \<open>
  An index hint is a Python dict from field name to direction. A dict keeps the order
  in which its keys were inserted, and \<open>hint.items()\<close> lists the pairs in that order,
  so the hint is the list of its pairs and \<open>tuple(hint.items())\<close> is that list.
\<close>

type_synonym hint = "(string \<times> int) list"

text \<open>
  The query specification: the dict with the keys \<open>filter\<close>, \<open>project\<close>, \<open>sort\<close>,
  \<open>skip\<close>, \<open>limit\<close>. \<open>None\<close> stands for an absent key (or a key bound to \<open>None\<close>),
  which \<open>query.get\<close> does not tell apart.
\<close>

record query =
  q_filter :: document
  q_project :: "document option"
  q_sort :: "(string \<times> int) list option"
  q_skip :: "nat option"
  q_limit :: "int option"

text \<open>
  Python is dynamically typed: a field of a result holds a value of any of these kinds.
  Times are seconds; they and the averages are modelled in exact real arithmetic, not
  in binary floating point.
\<close>

datatype val =
    VNone
  | VInt int
  | VFloat real
  | VStr string
  | VQuery query
  | VHint hint

section \<open>config.py\<close>

definition max_retries :: nat where
  "max_retries = 3"

definition retry_delay_base :: nat where
  "retry_delay_base = 2"

section \<open>models.py\<close>

record TestQuery =
  name :: string
  query :: query
  hints :: "hint list"
  database :: string
  collection :: string

text \<open>
  The dict handed to \<open>TestQuery.from_dict\<close>, one entry of the configuration file:
  each of the five keys is present with a value or absent.
\<close>

record query_data =
  d_name :: "string option"
  d_query :: "query option"
  d_hints :: "hint list option"
  d_database :: "string option"
  d_collection :: "string option"

definition from_dict :: "query_data \<Rightarrow> exn + TestQuery" where
  "from_dict data =
     (if d_database data = None then Inl (ValueError ''database is required'')
      else if d_collection data = None then Inl (ValueError ''collection is required'')
      else case d_name data of
        None \<Rightarrow> Inl (KeyError ''name'')
      | Some n \<Rightarrow>
          (case d_query data of
             None \<Rightarrow> Inl (KeyError ''query'')
           | Some q \<Rightarrow>
               Inr \<lparr> name = n, query = q,
                     hints = (case d_hints data of None \<Rightarrow> [] | Some hs \<Rightarrow> hs),
                     database = the (d_database data),
                     collection = the (d_collection data) \<rparr>))"

text \<open>The dataclass \<open>TestResult\<close>: its fourteen fields, in the order of the class body.\<close>

record TestResult =
  query :: val
  hint :: val
  iteration :: val
  warmup_iteration :: val
  sample_interval :: val
  avg_time :: val
  min_time :: val
  max_time :: val
  stdev_time :: val
  percentile_95 :: val
  percentile_99 :: val
  avg_docs_examined :: val
  avg_keys_examined :: val
  error :: val

definition TestResult_fields :: "string list" where
  "TestResult_fields =
     [''query'', ''hint'', ''iteration'', ''warmup_iteration'', ''sample_interval'',
      ''avg_time'', ''min_time'', ''max_time'', ''stdev_time'', ''percentile_95'',
      ''percentile_99'', ''avg_docs_examined'', ''avg_keys_examined'', ''error'']"

text \<open>The fields without a default value: a call must give each of them.\<close>

definition TestResult_required :: "string list" where
  "TestResult_required =
     [''query'', ''hint'', ''iteration'', ''warmup_iteration'', ''sample_interval'',
      ''avg_time'', ''min_time'', ''max_time'', ''stdev_time'']"

definition kwarg :: "(string \<times> val) list \<Rightarrow> string \<Rightarrow> val \<Rightarrow> val" where
  "kwarg kwargs k dflt = (case map_of kwargs k of None \<Rightarrow> dflt | Some v \<Rightarrow> v)"

text \<open>
  The constructor the dataclass generates, called with keyword arguments only, as both
  calls in tester.py do. A keyword that is not a field, or a required field that is not
  given, is a \<open>TypeError\<close>; the fields with defaults take \<open>0.0\<close>, and \<open>error\<close>
  takes \<open>None\<close>.
\<close>

definition TestResult_init :: "(string \<times> val) list \<Rightarrow> exn + TestResult" where
  "TestResult_init kwargs =
     (case filter (\<lambda>k. k \<notin> set TestResult_fields) (map fst kwargs) of
        k # ks \<Rightarrow> Inl (TypeError (''unexpected keyword argument '' @ k))
      | [] \<Rightarrow>
          (case filter (\<lambda>k. k \<notin> set (map fst kwargs)) TestResult_required of
             k # ks \<Rightarrow> Inl (TypeError (''missing required argument '' @ k))
           | [] \<Rightarrow>
               Inr \<lparr> query = kwarg kwargs ''query'' VNone,
                     hint = kwarg kwargs ''hint'' VNone,
                     iteration = kwarg kwargs ''iteration'' VNone,
                     warmup_iteration = kwarg kwargs ''warmup_iteration'' VNone,
                     sample_interval = kwarg kwargs ''sample_interval'' VNone,
                     avg_time = kwarg kwargs ''avg_time'' VNone,
                     min_time = kwarg kwargs ''min_time'' VNone,
                     max_time = kwarg kwargs ''max_time'' VNone,
                     stdev_time = kwarg kwargs ''stdev_time'' VNone,
                     percentile_95 = kwarg kwargs ''percentile_95'' (VFloat 0),
                     percentile_99 = kwarg kwargs ''percentile_99'' (VFloat 0),
                     avg_docs_examined = kwarg kwargs ''avg_docs_examined'' (VFloat 0),
                     avg_keys_examined = kwarg kwargs ''avg_keys_examined'' (VFloat 0),
                     error = kwarg kwargs ''error'' VNone \<rparr>))"

text \<open>
  Reading an attribute of a result by name, as the formatters do: a name that is not
  a field is an \<open>AttributeError\<close>.
\<close>

definition getattr :: "TestResult \<Rightarrow> string \<Rightarrow> exn + val" where
  "getattr r a =
     (if a = ''query'' then Inr (query r)
      else if a = ''hint'' then Inr (hint r)
      else if a = ''iteration'' then Inr (iteration r)
      else if a = ''warmup_iteration'' then Inr (warmup_iteration r)
      else if a = ''sample_interval'' then Inr (sample_interval r)
      else if a = ''avg_time'' then Inr (avg_time r)
      else if a = ''min_time'' then Inr (min_time r)
      else if a = ''max_time'' then Inr (max_time r)
      else if a = ''stdev_time'' then Inr (stdev_time r)
      else if a = ''percentile_95'' then Inr (percentile_95 r)
      else if a = ''percentile_99'' then Inr (percentile_99 r)
      else if a = ''avg_docs_examined'' then Inr (avg_docs_examined r)
      else if a = ''avg_keys_examined'' then Inr (avg_keys_examined r)
      else if a = ''error'' then Inr (error r)
      else Inl (AttributeError a))"

text \<open>\<open>to_dict\<close> is \<open>asdict\<close>: every field with its value, in field order.\<close>

definition to_dict :: "TestResult \<Rightarrow> (string \<times> val) list" where
  "to_dict r =
     [(''query'', query r), (''hint'', hint r), (''iteration'', iteration r),
      (''warmup_iteration'', warmup_iteration r), (''sample_interval'', sample_interval r),
      (''avg_time'', avg_time r), (''min_time'', min_time r), (''max_time'', max_time r),
      (''stdev_time'', stdev_time r), (''percentile_95'', percentile_95 r),
      (''percentile_99'', percentile_99 r), (''avg_docs_examined'', avg_docs_examined r),
      (''avg_keys_examined'', avg_keys_examined r), (''error'', error r)]"

section \<open>The standard library: statistics, indexing, int\<close>

text \<open>
  \<open>statistics.mean\<close>, \<open>statistics.stdev\<close> and \<open>statistics.quantiles\<close> as the
  standard library defines them; \<open>quantiles\<close> is called without a method, so the
  default, exclusive, method applies.
\<close>

definition mean :: "real list \<Rightarrow> exn + real" where
  "mean data =
     (if length data < 1 then Inl (StatisticsError ''mean requires at least one data point'')
      else Inr (sum_list data / real (length data)))"

definition stdev :: "real list \<Rightarrow> exn + real" where
  "stdev data =
     (if length data < 2
      then Inl (StatisticsError ''variance requires at least two data points'')
      else let m = sum_list data / real (length data)
           in Inr (sqrt (sum_list (map (\<lambda>x. (x - m)\<^sup>2) data) / real (length data - 1))))"

text \<open>
  The cut point number \<open>i\<close> of \<open>n\<close> over the sorted \<open>data\<close>: the body of the loop of
  the exclusive method. \<open>delta\<close> is negative when \<open>j\<close> was raised to 1 and exceeds
  \<open>n\<close> when \<open>j\<close> was lowered to \<open>ld - 1\<close>.
\<close>

definition quantile_cut :: "real list \<Rightarrow> nat \<Rightarrow> nat \<Rightarrow> real" where
  "quantile_cut data n i =
     (let ld = length data;
          m = ld + 1;
          j0 = i * m div n;
          j = (if j0 < 1 then 1 else if j0 > ld - 1 then ld - 1 else j0);
          delta = int (i * m) - int (j * n)
      in (data ! (j - 1) * (real n - real_of_int delta) + data ! j * real_of_int delta)
           / real n)"

definition quantiles :: "real list \<Rightarrow> nat \<Rightarrow> exn + real list" where
  "quantiles data0 n =
     (if n < 1 then Inl (StatisticsError ''n must be at least 1'')
      else let data = sort data0
           in if length data < 2
              then Inl (StatisticsError ''must have at least two data points'')
              else Inr (map (quantile_cut data n) [1..<n]))"

text \<open>List indexing: a negative index counts from the end, an index out of range raises.\<close>

definition py_index :: "'a list \<Rightarrow> int \<Rightarrow> exn + 'a" where
  "py_index xs i =
     (if 0 \<le> i \<and> i < int (length xs) then Inr (xs ! nat i)
      else if i < 0 \<and> - int (length xs) \<le> i then Inr (xs ! nat (int (length xs) + i))
      else Inl (IndexError ''list index out of range''))"

text \<open>
  \<open>int(s)\<close> on an ASCII string: surrounding white space, an optional sign, then
  decimal digits, where single underscores may separate digits.
\<close>

definition is_space :: "char \<Rightarrow> bool" where
  "is_space c = (c \<in> set [CHR '' '', CHR 0x09, CHR 0x0A, CHR 0x0B, CHR 0x0C, CHR 0x0D])"

definition is_digit :: "char \<Rightarrow> bool" where
  "is_digit c = (48 \<le> (of_char c :: nat) \<and> (of_char c :: nat) \<le> 57)"

definition digit_val :: "char \<Rightarrow> nat" where
  "digit_val c = (of_char c :: nat) - 48"

definition strip :: "string \<Rightarrow> string" where
  "strip s = rev (dropWhile is_space (rev (dropWhile is_space s)))"

fun py_digits :: "string \<Rightarrow> nat \<Rightarrow> nat option" where
  "py_digits [] acc = Some acc"
| "py_digits (c # cs) acc =
     (if is_digit c then py_digits cs (10 * acc + digit_val c)
      else if c = CHR ''_'' \<and> cs \<noteq> [] \<and> is_digit (hd cs) then py_digits cs acc
      else None)"

definition py_nat :: "string \<Rightarrow> nat option" where
  "py_nat s = (case s of [] \<Rightarrow> None | c # cs \<Rightarrow> if is_digit c then py_digits s 0 else None)"

definition py_int :: "string \<Rightarrow> exn + int" where
  "py_int s =
     (let t = strip s;
          r = (case t of
                 [] \<Rightarrow> None
               | c # cs \<Rightarrow>
                   if c = CHR ''+'' then map_option int (py_nat cs)
                   else if c = CHR ''-'' then map_option (\<lambda>n. - int n) (py_nat cs)
                   else map_option int (py_nat t))
      in case r of
           None \<Rightarrow> Inl (ValueError ''invalid literal for int()'')
         | Some i \<Rightarrow> Inr i)"

text \<open>\<open>s.split(".")\<close>: the pieces between the dots, empty pieces included.\<close>

fun split_dot :: "string \<Rightarrow> string \<Rightarrow> string list" where
  "split_dot [] piece = [rev piece]"
| "split_dot (c # cs) piece =
     (if c = CHR ''.'' then rev piece # split_dot cs [] else split_dot cs (c # piece))"

fun map_int :: "string list \<Rightarrow> exn + int list" where
  "map_int [] = Inr []"
| "map_int (s # ss) =
     (case py_int s of
        Inl e \<Rightarrow> Inl e
      | Inr i \<Rightarrow> (case map_int ss of Inl e \<Rightarrow> Inl e | Inr is \<Rightarrow> Inr (i # is)))"

text \<open>Comparison \<open>>=\<close> of two tuples of integers: lexicographic, a proper prefix is smaller.\<close>

fun tuple_ge :: "int list \<Rightarrow> int list \<Rightarrow> bool" where
  "tuple_ge [] [] = True"
| "tuple_ge [] (y # ys) = False"
| "tuple_ge (x # xs) [] = True"
| "tuple_ge (x # xs) (y # ys) = (if x = y then tuple_ge xs ys else x > y)"

section \<open>The driver: cursors and the server\<close>

text \<open>
  A cursor of the driver before it is executed: what \<open>find\<close> creates and what
  \<open>sort\<close>, \<open>skip\<close>, \<open>limit\<close> and \<open>hint\<close> set. A limit of 0 is no limit.
\<close>

record cursor =
  c_filter :: document
  c_projection :: "document option"
  c_sort :: "(string \<times> int) list option"
  c_skip :: nat
  c_limit :: int
  c_hint :: "hint option"

definition find :: "document \<Rightarrow> document option \<Rightarrow> cursor" where
  "find f p = \<lparr> c_filter = f, c_projection = p, c_sort = None, c_skip = 0, c_limit = 0,
                c_hint = None \<rparr>"

definition cursor_sort :: "cursor \<Rightarrow> (string \<times> int) list \<Rightarrow> cursor" where
  "cursor_sort c s = c\<lparr> c_sort := Some s \<rparr>"

definition cursor_skip :: "cursor \<Rightarrow> nat \<Rightarrow> cursor" where
  "cursor_skip c k = c\<lparr> c_skip := k \<rparr>"

definition cursor_limit :: "cursor \<Rightarrow> int \<Rightarrow> cursor" where
  "cursor_limit c l = c\<lparr> c_limit := l \<rparr>"

definition cursor_hint :: "cursor \<Rightarrow> hint \<Rightarrow> cursor" where
  "cursor_hint c h = c\<lparr> c_hint := Some h \<rparr>"

text \<open>
  The operations sent to the server, each with the database and the collection it
  addresses. The history of a connection is the list of the operations issued so far,
  oldest first, a failed one included.
\<close>

datatype op =
    BuildInfo
  | PlanCacheClearAdmin string
  | PlanCacheClearCommand string string
  | Find string string cursor
  | Explain string string cursor


text \<open>
  The server and the clock, as the harness sees them: what each operation answers after
  a given history, or the exception it raises. \<open>buildInfo\<close> answers the version string
  if the reply has one; a find answers the number of documents that \<open>list(cursor)\<close>
  materialises; an explain answers the two counters of its \<open>executionStats\<close> section,
  each of which may be absent, as may the section.
\<close>

record server =
  srv_buildInfo :: "op list \<Rightarrow> exn + string option"
  srv_command :: "op list \<Rightarrow> op \<Rightarrow> exn + unit"
  srv_find :: "op list \<Rightarrow> string \<Rightarrow> string \<Rightarrow> cursor \<Rightarrow> exn + nat"
  srv_explain :: "op list \<Rightarrow> string \<Rightarrow> string \<Rightarrow> cursor
                    \<Rightarrow> exn + (int option \<times> int option) option"
  srv_perf_counter :: "op list \<Rightarrow> real"

section \<open>tester.py\<close>

definition build_query_cursor :: "query \<Rightarrow> hint \<Rightarrow> cursor" where
  "build_query_cursor q index_hint =
     (let command = (if q_project q = None then find (q_filter q) None
                     else find (q_filter q) (q_project q));
          command = (case q_sort q of
                       Some s \<Rightarrow> if s \<noteq> [] then cursor_sort command s else command
                     | None \<Rightarrow> command);
          command = (case q_skip q of
                       Some k \<Rightarrow> if k \<noteq> 0 then cursor_skip command k else command
                     | None \<Rightarrow> command);
          command = (case q_limit q of
                       Some l \<Rightarrow> if l \<noteq> 0 then cursor_limit command l else command
                     | None \<Rightarrow> command);
          command = (if index_hint \<noteq> [] then cursor_hint command index_hint else command)
      in command)"

definition parse_version :: "string \<Rightarrow> exn + int list" where
  "parse_version version_str = map_int (split_dot version_str [])"

text \<open>
  \<open>_clear_plan_cache\<close>. The \<open>buildInfo\<close> command is outside the inner \<open>try\<close>; the
  inner handler takes a \<open>PyMongoError\<close> only, so a version that does not parse raises
  its \<open>ValueError\<close> out of the method.
\<close>

definition clear_plan_cache ::
  "server \<Rightarrow> string \<Rightarrow> string \<Rightarrow> op list \<Rightarrow> (exn + unit) \<times> op list" where
  "clear_plan_cache srv db coll hist =
     (case srv_buildInfo srv hist of
        Inl e \<Rightarrow> (Inl e, hist @ [BuildInfo])
      | Inr build_info \<Rightarrow>
          (let hist1 = hist @ [BuildInfo];
               version = (case build_info of None \<Rightarrow> [] | Some v \<Rightarrow> v)
           in case parse_version version of
                Inl e \<Rightarrow> (Inl e, hist1)
              | Inr t \<Rightarrow>
                  (case parse_version ''4.4'' of
                     Inl e \<Rightarrow> (Inl e, hist1)
                   | Inr t44 \<Rightarrow>
                       (let c = (if tuple_ge t t44
                                 then PlanCacheClearAdmin (db @ ''.'' @ coll)
                                 else PlanCacheClearCommand coll db)
                        in case srv_command srv hist1 c of
                             Inl e \<Rightarrow>
                               if is_PyMongoError e then (Inr (), hist1 @ [c])
                               else (Inl e, hist1 @ [c])
                           | Inr u \<Rightarrow> (Inr (), hist1 @ [c])))))"

text \<open>
  \<open>_perform_warmup\<close>: the loop over \<open>range(warmup_iterations)\<close>, by the number of
  iterations left. Each one executes the built cursor with \<open>.limit(0)\<close> put on it.
\<close>

fun warmup_loop ::
  "server \<Rightarrow> string \<Rightarrow> string \<Rightarrow> query \<Rightarrow> hint \<Rightarrow> nat \<Rightarrow> op list
     \<Rightarrow> (exn + unit) \<times> op list" where
  "warmup_loop srv db coll q index_hint 0 hist = (Inr (), hist)"
| "warmup_loop srv db coll q index_hint (Suc k) hist =
     (let c = cursor_limit (build_query_cursor q index_hint) 0
      in case srv_find srv hist db coll c of
           Inl e \<Rightarrow> (Inl e, hist @ [Find db coll c])
         | Inr n \<Rightarrow> warmup_loop srv db coll q index_hint k (hist @ [Find db coll c]))"

definition perform_warmup ::
  "server \<Rightarrow> string \<Rightarrow> string \<Rightarrow> query \<Rightarrow> hint \<Rightarrow> int \<Rightarrow> op list
     \<Rightarrow> (exn + unit) \<times> op list" where
  "perform_warmup srv db coll q index_hint warmup_iterations hist =
     warmup_loop srv db coll q index_hint (nat warmup_iterations) hist"

text \<open>
  \<open>_collect_execution_stats\<close>: explains the built cursor and appends the two counters,
  0 for one that the reply does not have.
\<close>

definition collect_execution_stats ::
  "server \<Rightarrow> string \<Rightarrow> string \<Rightarrow> query \<Rightarrow> hint \<Rightarrow> int list \<Rightarrow> int list \<Rightarrow> op list
     \<Rightarrow> (exn + int list \<times> int list) \<times> op list" where
  "collect_execution_stats srv db coll q index_hint docs_examined keys_examined hist =
     (let c = build_query_cursor q index_hint
      in case srv_explain srv hist db coll c of
           Inl e \<Rightarrow> (Inl e, hist @ [Explain db coll c])
         | Inr explain_result \<Rightarrow>
             (let stats = (case explain_result of None \<Rightarrow> (None, None) | Some s \<Rightarrow> s);
                  d = (case fst stats of None \<Rightarrow> 0 | Some v \<Rightarrow> v);
                  k = (case snd stats of None \<Rightarrow> 0 | Some v \<Rightarrow> v)
              in (Inr (docs_examined @ [d], keys_examined @ [k]),
                  hist @ [Explain db coll c])))"

type_synonym samples = "real list \<times> int list \<times> int list \<times> nat list"

text \<open>
  \<open>_perform_testing\<close>: the loop over \<open>range(iterations)\<close>, by the number of
  iterations left, with the index \<open>i\<close> of the current one and the four lists
  \<open>times\<close>, \<open>docs_examined\<close>, \<open>keys_examined\<close>, \<open>docs_returned\<close>.
\<close>

fun testing_loop ::
  "server \<Rightarrow> string \<Rightarrow> string \<Rightarrow> query \<Rightarrow> hint \<Rightarrow> int \<Rightarrow> int \<Rightarrow> nat \<Rightarrow> int
     \<Rightarrow> samples \<Rightarrow> op list \<Rightarrow> (exn + samples) \<times> op list" where
  "testing_loop srv db coll q index_hint iterations si 0 i acc hist = (Inr acc, hist)"
| "testing_loop srv db coll q index_hint iterations si (Suc k) i
       (timings, docs_examined, keys_examined, docs_returned) hist =
     (let start_time = srv_perf_counter srv hist;
          c = build_query_cursor q index_hint;
          hist1 = hist @ [Find db coll c]
      in case srv_find srv hist db coll c of
           Inl e \<Rightarrow> (Inl e, hist1)
         | Inr result_count \<Rightarrow>
             (let docs_returned1 = docs_returned @ [result_count];
                  elapsed = srv_perf_counter srv hist1 - start_time;
                  timings1 = timings @ [elapsed]
              in if si > 0 \<and> (i mod si = 0 \<or> i = iterations - 1)
                 then (case collect_execution_stats srv db coll q index_hint
                               docs_examined keys_examined hist1 of
                         (Inl e, hist2) \<Rightarrow> (Inl e, hist2)
                       | (Inr (docs_examined1, keys_examined1), hist2) \<Rightarrow>
                           testing_loop srv db coll q index_hint iterations si k (i + 1)
                             (timings1, docs_examined1, keys_examined1, docs_returned1) hist2)
                 else testing_loop srv db coll q index_hint iterations si k (i + 1)
                        (timings1, docs_examined, keys_examined, docs_returned1) hist1))"

definition perform_testing ::
  "server \<Rightarrow> string \<Rightarrow> string \<Rightarrow> query \<Rightarrow> hint \<Rightarrow> int \<Rightarrow> int \<Rightarrow> op list
     \<Rightarrow> (exn + samples) \<times> op list" where
  "perform_testing srv db coll q index_hint iterations si hist =
     testing_loop srv db coll q index_hint iterations si (nat iterations) 0
       ([], [], [], []) hist"

text \<open>Sequencing of two computations that may raise.\<close>

definition seq_exn :: "exn + 'a \<Rightarrow> ('a \<Rightarrow> exn + 'b) \<Rightarrow> exn + 'b" where
  "seq_exn r f = (case r of Inl e \<Rightarrow> Inl e | Inr x \<Rightarrow> f x)"

text \<open>
  The argument expressions of the constructor call in \<open>_calculate_results\<close>, each
  under the name of the keyword it is passed as.
\<close>

definition stdev_time_arg :: "real list \<Rightarrow> exn + val" where
  "stdev_time_arg sorted_times =
     (if length sorted_times > 1 then seq_exn (stdev sorted_times) (\<lambda>v. Inr (VFloat v))
      else Inr (VFloat 0))"

definition percentile_arg :: "real list \<Rightarrow> int \<Rightarrow> exn + val" where
  "percentile_arg sorted_times k =
     (if length sorted_times \<ge> 5
      then seq_exn (quantiles sorted_times 100)
             (\<lambda>qs. seq_exn (py_index qs k) (\<lambda>v. Inr (VFloat v)))
      else Inr (VFloat 0))"

definition mean_or_zero :: "real list \<Rightarrow> exn + val" where
  "mean_or_zero xs =
     (if xs \<noteq> [] then seq_exn (mean xs) (\<lambda>v. Inr (VFloat v)) else Inr (VFloat 0))"

text \<open>
  The keyword arguments of that call, evaluated in the order they are written. Python
  evaluates them all before it calls the constructor.
\<close>

definition calculate_results_args ::
  "query \<Rightarrow> hint \<Rightarrow> int \<Rightarrow> int \<Rightarrow> int \<Rightarrow> real list \<Rightarrow> int list \<Rightarrow> int list \<Rightarrow> nat list
     \<Rightarrow> exn + (string \<times> val) list" where
  "calculate_results_args q index_hint iteration0 warmup_iteration0 sample_interval0
       timings docs_examined keys_examined docs_returned =
     (let sorted_times = sort timings
      in seq_exn (mean sorted_times) (\<lambda>avg.
         seq_exn (py_index sorted_times 0) (\<lambda>mn.
         seq_exn (py_index sorted_times (- 1)) (\<lambda>mx.
         seq_exn (stdev_time_arg sorted_times) (\<lambda>sd.
         seq_exn (percentile_arg sorted_times 94) (\<lambda>p95.
         seq_exn (percentile_arg sorted_times 98) (\<lambda>p99.
         seq_exn (mean_or_zero (map real_of_int docs_examined)) (\<lambda>de.
         seq_exn (mean_or_zero (map real_of_int keys_examined)) (\<lambda>ke.
         seq_exn (mean_or_zero (map real docs_returned)) (\<lambda>dr.
           Inr [(''query'', VQuery q), (''hint'', VHint index_hint),
                (''iteration'', VInt iteration0),
                (''warmup_iteration'', VInt warmup_iteration0),
                (''sample_interval'', VInt sample_interval0),
                (''avg_time'', VFloat avg), (''min_time'', VFloat mn),
                (''max_time'', VFloat mx), (''stdev_time'', sd),
                (''percentile_95'', p95), (''percentile_99'', p99),
                (''avg_docs_examined'', de), (''avg_keys_examined'', ke),
                (''avg_docs_returned'', dr)]))))))))))"

definition calculate_results ::
  "query \<Rightarrow> hint \<Rightarrow> int \<Rightarrow> int \<Rightarrow> int \<Rightarrow> real list \<Rightarrow> int list \<Rightarrow> int list \<Rightarrow> nat list
     \<Rightarrow> exn + TestResult" where
  "calculate_results q index_hint iteration0 warmup_iteration0 sample_interval0
       timings docs_examined keys_examined docs_returned =
     seq_exn (calculate_results_args q index_hint iteration0 warmup_iteration0
                sample_interval0 timings docs_examined keys_examined docs_returned)
       TestResult_init"

text \<open>The body of the \<open>try\<close> of \<open>test_index_performance\<close>.\<close>

definition run_phases ::
  "server \<Rightarrow> string \<Rightarrow> string \<Rightarrow> query \<Rightarrow> hint \<Rightarrow> int \<Rightarrow> int \<Rightarrow> int \<Rightarrow> op list
     \<Rightarrow> (exn + TestResult) \<times> op list" where
  "run_phases srv db coll q index_hint iterations warmup_iterations si hist =
     (case clear_plan_cache srv db coll hist of
        (Inl e, hist1) \<Rightarrow> (Inl e, hist1)
      | (Inr u, hist1) \<Rightarrow>
          (case perform_warmup srv db coll q index_hint warmup_iterations hist1 of
             (Inl e, hist2) \<Rightarrow> (Inl e, hist2)
           | (Inr u, hist2) \<Rightarrow>
               (case perform_testing srv db coll q index_hint iterations si hist2 of
                  (Inl e, hist3) \<Rightarrow> (Inl e, hist3)
                | (Inr (timings, docs_examined, keys_examined, docs_returned), hist3) \<Rightarrow>
                    (calculate_results q index_hint iterations warmup_iterations si
                       timings docs_examined keys_examined docs_returned, hist3))))"

text \<open>The result that the handler of \<open>test_index_performance\<close> builds from the exception.\<close>

definition error_result :: "query \<Rightarrow> hint \<Rightarrow> int \<Rightarrow> int \<Rightarrow> int \<Rightarrow> exn \<Rightarrow> exn + TestResult" where
  "error_result q index_hint iterations warmup_iterations si e =
     TestResult_init
       [(''query'', VQuery q), (''hint'', VHint index_hint),
        (''iteration'', VInt iterations), (''warmup_iteration'', VInt warmup_iterations),
        (''sample_interval'', VInt si),
        (''avg_time'', VInt 0), (''min_time'', VInt 0), (''max_time'', VInt 0),
        (''stdev_time'', VInt 0), (''error'', VStr (str_exn e))]"

definition test_index_performance ::
  "server \<Rightarrow> string \<Rightarrow> string \<Rightarrow> query \<Rightarrow> hint \<Rightarrow> int \<Rightarrow> int \<Rightarrow> int \<Rightarrow> op list
     \<Rightarrow> (exn + TestResult) \<times> op list" where
  "test_index_performance srv db coll q index_hint iterations warmup_iterations si hist =
     (case run_phases srv db coll q index_hint iterations warmup_iterations si hist of
        (Inl e, hist1) \<Rightarrow>
          if is_PyMongoError e
          then (error_result q index_hint iterations warmup_iterations si e, hist1)
          else (Inl e, hist1)
      | (Inr r, hist1) \<Rightarrow> (Inr r, hist1))"

section \<open>formatters.py\<close>

text \<open>
  What a formatter returns, before it is laid out as text: a cell is a value with the
  format specification of its replacement field (empty for none). A table has the query
  of its title, its field names and its rows; a CSV document its header and its lines;
  a JSON document the dicts of the results.
\<close>

datatype cell = Cell val string

datatype rendering =
    Table val "string list" "cell list list"
  | CSV string "cell list list"
  | JSON "(string \<times> val) list list"

fun format_cells :: "TestResult \<Rightarrow> (string \<times> string) list \<Rightarrow> exn + cell list" where
  "format_cells r [] = Inr []"
| "format_cells r ((a, spec) # rest) =
     seq_exn (getattr r a) (\<lambda>v.
     seq_exn (format_cells r rest) (\<lambda>cs. Inr (Cell v spec # cs)))"

fun format_rows :: "(string \<times> string) list \<Rightarrow> TestResult list \<Rightarrow> exn + cell list list" where
  "format_rows attrs [] = Inr []"
| "format_rows attrs (r # rs) =
     seq_exn (format_cells r attrs) (\<lambda>row.
     seq_exn (format_rows attrs rs) (\<lambda>rows. Inr (row # rows)))"

definition table_field_names :: "string list" where
  "table_field_names =
     [''Index Hint'', ''Iteration'', ''Warmup Iteration'', ''Sample Interval'',
      ''Avg Time (s)'', ''Min Time (s)'', ''Max Time (s)'', ''StdDev'', ''95th %'',
      ''99th %'', ''Avg Docs'', ''Avg Keys'', ''Avg Returned'']"

definition table_row_attrs :: "(string \<times> string) list" where
  "table_row_attrs =
     [(''hint'', []), (''iteration'', []), (''warmup_iteration'', []),
      (''sample_interval'', []), (''avg_time'', ''.6f''), (''min_time'', ''.6f''),
      (''max_time'', ''.6f''), (''stdev_time'', ''.6f''), (''percentile_95'', ''.6f''),
      (''percentile_99'', ''.6f''), (''avg_docs_examined'', ''.1f''),
      (''avg_keys_examined'', ''.1f''), (''avg_docs_returned'', ''.1f'')]"

text \<open>\<open>TableFormatter.format\<close>: the title reads \<open>results[0]\<close> before the loop over the results.\<close>

definition TableFormatter_format :: "TestResult list \<Rightarrow> exn + rendering" where
  "TableFormatter_format results =
     seq_exn (py_index results 0) (\<lambda>r0.
     seq_exn (getattr r0 ''query'') (\<lambda>title.
     seq_exn (format_rows table_row_attrs results) (\<lambda>rows.
       Inr (Table title table_field_names rows))))"

definition csv_header :: string where
  "csv_header = ''Query ID,Index Hint,Iteration,Warmup Iteration,Sample Interval,Avg Time (s),Min Time (s),Max Time (s),StdDev,95th %,99th %,Avg Docs,Avg Keys,Avg Returned,Error''"

definition csv_line_attrs :: "(string \<times> string) list" where
  "csv_line_attrs =
     [(''query'', []), (''hint'', []), (''iteration'', []), (''warmup_iteration'', []),
      (''sample_interval'', []), (''avg_time'', ''.6f''), (''min_time'', ''.6f''),
      (''max_time'', ''.6f''), (''stdev_time'', ''.6f''), (''percentile_95'', ''.6f''),
      (''percentile_99'', ''.6f''), (''avg_docs_examined'', ''.1f''),
      (''avg_keys_examined'', ''.1f''), (''avg_docs_returned'', ''.1f''), (''error'', [])]"

definition CSVFormatter_format :: "TestResult list \<Rightarrow> exn + rendering" where
  "CSVFormatter_format results =
     seq_exn (format_rows csv_line_attrs results) (\<lambda>lines. Inr (CSV csv_header lines))"

definition JSONFormatter_format :: "TestResult list \<Rightarrow> exn + rendering" where
  "JSONFormatter_format results = Inr (JSON (map to_dict results))"

section \<open>main.py\<close>

text \<open>
  The names bound at module level in main.py when \<open>main\<close> runs: what its imports bring
  in and the functions it defines.
\<close>

definition main_globals :: "string list" where
  "main_globals =
     [''sys'', ''json'', ''time'', ''argparse'', ''os'', ''datetime'', ''List'', ''ObjectId'',
      ''DEFAULT_CONFIG'', ''logger'', ''MongoDBConnection'', ''TestQuery'', ''TestResult'',
      ''IndexPerformanceTester'', ''TableFormatter'', ''CSVFormatter'', ''JSONFormatter'',
      ''json_object_hook'', ''load_test_queries'', ''save_results'', ''main'']"

text \<open>
  \<open>save_results\<close>: chooses the formatter and formats the results. The file it then
  writes has no part in what it returns: a failure to write is logged and the formatted
  results are returned all the same.
\<close>

definition save_results :: "TestResult list \<Rightarrow> string \<Rightarrow> exn + rendering" where
  "save_results results output_format =
     (if output_format = ''table'' then TableFormatter_format results
      else if output_format = ''csv'' then CSVFormatter_format results
      else if output_format = ''json'' then JSONFormatter_format results
      else Inl (SystemExit 1))"

record args =
  a_iterations :: int
  a_warmup :: int
  a_sample_interval :: int
  a_output_format :: string

text \<open>
  What the process has done so far: the query hashes recorded as tested, the harness
  calls that returned (each hint with the \<open>error\<close> field of its result), the formatted
  results printed, the sleeps taken, and the operations sent to the server.
\<close>

record process =
  tested_queries :: "(query \<times> hint list) set"
  harness_calls :: "(hint \<times> val) list"
  printed :: "rendering list"
  sleeps :: "nat list"
  history :: "op list"

text \<open>
  The loop over the hints of one query, with the harness call as \<open>run\<close>. The set
  \<open>tested_hints\<close> holds \<open>tuple(hint.items())\<close> of the hints tested without error.
\<close>

fun hint_loop ::
  "(hint \<Rightarrow> op list \<Rightarrow> (exn + TestResult) \<times> op list) \<Rightarrow> hint list \<Rightarrow> TestResult list
     \<Rightarrow> hint set \<Rightarrow> process \<Rightarrow> (exn + TestResult list) \<times> process" where
  "hint_loop run [] results tested_hints st = (Inr results, st)"
| "hint_loop run (h # hs) results tested_hints st =
     (if h \<in> tested_hints then hint_loop run hs results tested_hints st
      else case run h (history st) of
             (Inl e, hist1) \<Rightarrow> (Inl e, st\<lparr> history := hist1 \<rparr>)
           | (Inr result, hist1) \<Rightarrow>
               (let st1 = st\<lparr> history := hist1,
                               harness_calls := harness_calls st @ [(h, error result)] \<rparr>
                in if error result = VNone
                   then hint_loop run hs (results @ [result]) (insert h tested_hints) st1
                   else hint_loop run hs results tested_hints st1))"


text \<open>
  \<open>TestQuery.__hash__\<close> hashes the texts of the query and of the hints; the model
  keeps the pair itself, that is, takes the texts and the hash to be injective.
\<close>

definition hash_TestQuery :: "TestQuery \<Rightarrow> query \<times> hint list" where
  "hash_TestQuery t = (TestQuery.query t, hints t)"

text \<open>The loop over the configured queries, inside the \<open>with\<close> block.\<close>

fun query_loop ::
  "server \<Rightarrow> args \<Rightarrow> TestQuery list \<Rightarrow> process \<Rightarrow> (exn + unit) \<times> process" where
  "query_loop srv a [] st = (Inr (), st)"
| "query_loop srv a (t # ts) st =
     (if hash_TestQuery t \<in> tested_queries st then query_loop srv a ts st
      else case hint_loop
                  (\<lambda>h. test_index_performance srv (database t) (collection t)
                          (TestQuery.query t) h (a_iterations a) (a_warmup a)
                          (a_sample_interval a))
                  (hints t) [] {} st of
             (Inl e, st1) \<Rightarrow> (Inl e, st1)
           | (Inr results, st1) \<Rightarrow>
               (case save_results results (a_output_format a) of
                  Inl e \<Rightarrow> (Inl e, st1)
                | Inr formatted_results \<Rightarrow>
                    query_loop srv a ts
                      (st1\<lparr> printed := printed st1 @ [formatted_results],
                            tested_queries := insert (hash_TestQuery t) (tested_queries st1) \<rparr>)))"

text \<open>
  The loop over \<open>range(max_retries)\<close>. \<open>connect attempt\<close> is what entering the
  connection gives at that attempt: a server, or an exception. An exception out of the
  \<open>try\<close> reaches the clause \<open>except errors.ConnectionFailure\<close>, whose expression is
  evaluated first: the name \<open>errors\<close> is looked up among the globals of the module.
\<close>

fun connection_loop ::
  "(nat \<Rightarrow> exn + server) \<Rightarrow> args \<Rightarrow> TestQuery list \<Rightarrow> nat list \<Rightarrow> process
     \<Rightarrow> (exn + unit) \<times> process" where
  "connection_loop connect a qs [] st = (Inr (), st)"
| "connection_loop connect a qs (attempt # rest) st =
     (case (case connect attempt of
              Inl e \<Rightarrow> (Inl e, st)
            | Inr srv \<Rightarrow> query_loop srv a qs st) of
        (Inr u, st1) \<Rightarrow> (Inr (), st1)
      | (Inl e, st1) \<Rightarrow>
          if ''errors'' \<notin> set main_globals then (Inl (NameError ''errors''), st1)
          else if is_ConnectionFailure e
          then if attempt < max_retries - 1
               then connection_loop connect a qs rest
                      (st1\<lparr> sleeps := sleeps st1 @ [retry_delay_base ^ attempt] \<rparr>)
               else (Inl (SystemExit 1), st1)
          else (Inl e, st1))"

definition start :: process where
  "start = \<lparr> tested_queries = {}, harness_calls = [], printed = [], sleeps = [],
             history = [] \<rparr>"

definition main :: "(nat \<Rightarrow> exn + server) \<Rightarrow> args \<Rightarrow> TestQuery list \<Rightarrow> (exn + unit) \<times> process" where
  "main connect a test_queries = connection_loop connect a test_queries [0..<max_retries] start"

section \<open>Sample inputs\<close>

definition plain_query :: query where
  "plain_query = \<lparr> q_filter = [(''status'', BStr ''active'')], q_project = None,
                   q_sort = None, q_skip = None, q_limit = None \<rparr>"

definition limited_query :: query where
  "limited_query = \<lparr> q_filter = [(''status'', BStr ''active'')], q_project = None,
                     q_sort = None, q_skip = None, q_limit = Some 5 \<rparr>"

text \<open>
  A server on which everything succeeds: version 6.0.5, three documents for every find,
  ten documents and twelve keys examined for every explain, one second on the clock
  for every operation.
\<close>

definition steady_server :: server where
  "steady_server =
     \<lparr> srv_buildInfo = (\<lambda>h. Inr (Some ''6.0.5'')),
       srv_command = (\<lambda>h c. Inr ()),
       srv_find = (\<lambda>h d c q. Inr 3),
       srv_explain = (\<lambda>h d c q. Inr (Some (Some 10, Some 12))),
       srv_perf_counter = (\<lambda>h. real (length h)) \<rparr>"


definition sample_args :: args where
  "sample_args = \<lparr> a_iterations = 10, a_warmup = 2, a_sample_interval = 1,
                   a_output_format = ''table'' \<rparr>"

definition sample_test_query :: TestQuery where
  "sample_test_query = \<lparr> name = ''active_users'', query = plain_query,
                         hints = [[(''status'', 1)]], database = ''shop'',
                         collection = ''users'' \<rparr>"





section \<open>Facts about the harness\<close>

subsection \<open>The reducer and the histories of the loops\<close>

lemma parse_version_6_0_5: "parse_version ''6.0.5'' = Inr [6, 0, 5]"
  by (simp add: parse_version_def py_int_def strip_def is_space_def py_nat_def is_digit_def
      digit_val_def)

lemma parse_version_4_4: "parse_version ''4.4'' = Inr [4, 4]"
  by (simp add: parse_version_def py_int_def strip_def is_space_def py_nat_def is_digit_def
      digit_val_def)

lemma avg_docs_returned_no_field: "''avg_docs_returned'' \<notin> set TestResult_fields"
  by (simp add: TestResult_fields_def)





lemma clear_plan_cache_steady:
  "clear_plan_cache steady_server db coll hist =
     (Inr (), hist @ [BuildInfo, PlanCacheClearAdmin (db @ ''.'' @ coll)])"
  by (simp add: clear_plan_cache_def steady_server_def parse_version_6_0_5 parse_version_4_4)


lemma warmup_loop_history:
  "\<exists>n. snd (warmup_loop srv db coll q h k hist) =
         hist @ replicate n (Find db coll (cursor_limit (build_query_cursor q h) 0))"
proof (induction k arbitrary: hist)
  case 0
  show ?case by simp
next
  case (Suc k)
  let ?c = "Find db coll (cursor_limit (build_query_cursor q h) 0)"
  show ?case
  proof (cases "srv_find srv hist db coll (cursor_limit (build_query_cursor q h) 0)")
    case (Inl e)
    then have "snd (warmup_loop srv db coll q h (Suc k) hist) = hist @ replicate 1 ?c"
      by simp
    then show ?thesis by blast
  next
    case (Inr n)
    from Suc.IH [of "hist @ [?c]"] obtain m where
      "snd (warmup_loop srv db coll q h k (hist @ [?c])) = (hist @ [?c]) @ replicate m ?c"
      by blast
    with Inr have "snd (warmup_loop srv db coll q h (Suc k) hist) = hist @ replicate (Suc m) ?c"
      by simp
    then show ?thesis by blast
  qed
qed


text \<open>The four ways one iteration of the timed loop can go.\<close>

lemma testing_loop_find_fails:
  "srv_find srv hist db coll (build_query_cursor q h) = Inl e \<Longrightarrow>
     testing_loop srv db coll q h it si (Suc k) i (ts, de, ke, dr) hist =
       (Inl e, hist @ [Find db coll (build_query_cursor q h)])"
  by simp

lemma testing_loop_unsampled:
  "srv_find srv hist db coll (build_query_cursor q h) = Inr n \<Longrightarrow>
   \<not> (si > 0 \<and> (i mod si = 0 \<or> i = it - 1)) \<Longrightarrow>
     testing_loop srv db coll q h it si (Suc k) i (ts, de, ke, dr) hist =
       testing_loop srv db coll q h it si k (i + 1)
         (ts @ [srv_perf_counter srv (hist @ [Find db coll (build_query_cursor q h)])
                  - srv_perf_counter srv hist], de, ke, dr @ [n])
         (hist @ [Find db coll (build_query_cursor q h)])"
  by (auto simp: Let_def)

lemma testing_loop_explain_fails:
  "srv_find srv hist db coll (build_query_cursor q h) = Inr n \<Longrightarrow>
   si > 0 \<and> (i mod si = 0 \<or> i = it - 1) \<Longrightarrow>
   srv_explain srv (hist @ [Find db coll (build_query_cursor q h)]) db coll
     (build_query_cursor q h) = Inl e \<Longrightarrow>
     testing_loop srv db coll q h it si (Suc k) i (ts, de, ke, dr) hist =
       (Inl e, hist @ [Find db coll (build_query_cursor q h),
                       Explain db coll (build_query_cursor q h)])"
  by (simp add: Let_def collect_execution_stats_def)

lemma testing_loop_sampled:
  "srv_find srv hist db coll (build_query_cursor q h) = Inr n \<Longrightarrow>
   si > 0 \<and> (i mod si = 0 \<or> i = it - 1) \<Longrightarrow>
   srv_explain srv (hist @ [Find db coll (build_query_cursor q h)]) db coll
     (build_query_cursor q h) = Inr x \<Longrightarrow>
     \<exists>d k'. testing_loop srv db coll q h it si (Suc k) i (ts, de, ke, dr) hist =
       testing_loop srv db coll q h it si k (i + 1)
         (ts @ [srv_perf_counter srv (hist @ [Find db coll (build_query_cursor q h)])
                  - srv_perf_counter srv hist], de @ [d], ke @ [k'], dr @ [n])
         (hist @ [Find db coll (build_query_cursor q h),
                  Explain db coll (build_query_cursor q h)])"
  by (simp add: Let_def collect_execution_stats_def) blast

lemma testing_loop_history:
  "\<exists>new. snd (testing_loop srv db coll q h it si k i acc hist) = hist @ new \<and>
     set new \<subseteq> {Find db coll (build_query_cursor q h), Explain db coll (build_query_cursor q h)}"
proof (induction k arbitrary: i acc hist)
  case 0
  show ?case by simp
next
  case (Suc k)
  obtain ts de ke dr where acc: "acc = (ts, de, ke, dr)" by (cases acc) auto
  let ?c = "build_query_cursor q h"
  let ?F = "Find db coll ?c" and ?E = "Explain db coll ?c"
  show ?case
  proof (cases "srv_find srv hist db coll ?c")
    case (Inl e)
    have "snd (testing_loop srv db coll q h it si (Suc k) i acc hist) = hist @ [?F]"
      unfolding acc testing_loop_find_fails [OF Inl] by simp
    then show ?thesis by auto
  next
    case find: (Inr n)
    show ?thesis
    proof (cases "si > 0 \<and> (i mod si = 0 \<or> i = it - 1)")
      case False
      note step = testing_loop_unsampled [OF find False, of k ts de ke dr]
      from Suc.IH obtain new where
        "snd (testing_loop srv db coll q h it si (Suc k) i acc hist) = (hist @ [?F]) @ new"
        "set new \<subseteq> {?F, ?E}" unfolding acc step by blast
      then show ?thesis
        by (intro exI [of _ "?F # new"]) auto
    next
      case True
      show ?thesis
      proof (cases "srv_explain srv (hist @ [?F]) db coll ?c")
        case (Inl e)
        have "snd (testing_loop srv db coll q h it si (Suc k) i acc hist) = hist @ [?F, ?E]"
          unfolding acc testing_loop_explain_fails [OF find True Inl] by simp
        then show ?thesis by auto
      next
        case (Inr x)
        from testing_loop_sampled [OF find True Inr, of k ts de ke dr]
        obtain d k' where step:
          "testing_loop srv db coll q h it si (Suc k) i (ts, de, ke, dr) hist =
           testing_loop srv db coll q h it si k (i + 1)
             (ts @ [srv_perf_counter srv (hist @ [?F]) - srv_perf_counter srv hist],
              de @ [d], ke @ [k'], dr @ [n]) (hist @ [?F, ?E])"
          by blast
        from Suc.IH obtain new where
          "snd (testing_loop srv db coll q h it si (Suc k) i acc hist) = (hist @ [?F, ?E]) @ new"
          "set new \<subseteq> {?F, ?E}" unfolding acc step by blast
        then show ?thesis
          by (intro exI [of _ "?F # ?E # new"]) auto
      qed
    qed
  qed
qed



subsection \<open>Two sample runs\<close>






subsection \<open>Runs without plan sampling\<close>




lemma test_index_performance_history:
  "snd (test_index_performance srv db coll q h it w si hist) =
   snd (run_phases srv db coll q h it w si hist)"
  by (auto simp: test_index_performance_def split: prod.splits sum.splits)







subsection \<open>The composed cursor\<close>

lemma build_query_cursor_fields:
  "build_query_cursor q h =
     \<lparr> c_filter = q_filter q,
       c_projection = q_project q,
       c_sort = (case q_sort q of None \<Rightarrow> None | Some s \<Rightarrow> if s \<noteq> [] then Some s else None),
       c_skip = (case q_skip q of None \<Rightarrow> 0 | Some k \<Rightarrow> if k \<noteq> 0 then k else 0),
       c_limit = (case q_limit q of None \<Rightarrow> 0 | Some l \<Rightarrow> if l \<noteq> 0 then l else 0),
       c_hint = (if h \<noteq> [] then Some h else None) \<rparr>"
  by (simp add: build_query_cursor_def find_def cursor_sort_def cursor_skip_def
      cursor_limit_def cursor_hint_def Let_def split: option.splits)

subsection \<open>The calls of the hint loop\<close>



subsection \<open>Cut points of sorted data\<close>














subsection \<open>The connection loop\<close>

text \<open>Whatever the first attempt to connect raises, the process ends there, with no sleep.\<close>

lemma first_failure_ends_main:
  "connect 0 = Inl e \<Longrightarrow> main connect a qs = (Inl (NameError ''errors''), start)"
  by (simp add: main_def max_retries_def upt_rec main_globals_def)

section \<open>The properties of the specification\<close>

subsection \<open>C1: what the harness raises\<close>




subsection \<open>C2: the field \<open>avg_docs_returned\<close>\<close>

text \<open>
  C2. The claim is that every result carries \<open>avg_docs_returned\<close>, the mean of
  the documents returned over the timed iterations. The dataclass has no such field,
  while \<open>_calculate_results\<close> passes that keyword to its constructor: a run whose
  operations all succeed, here with one timed iteration, does not return a result but
  raises a \<open>TypeError\<close>.
\<close>

theorem successful_run_raises_TypeError:
  "test_index_performance steady_server ''shop'' ''users'' plain_query [] 1 0 1 []
     = (Inl (TypeError ''unexpected keyword argument avg_docs_returned''),
        [BuildInfo, PlanCacheClearAdmin ''shop.users'',
         Find ''shop'' ''users'' (build_query_cursor plain_query []),
         Explain ''shop'' ''users'' (build_query_cursor plain_query [])])"
  apply (simp add: test_index_performance_def run_phases_def clear_plan_cache_steady
      perform_warmup_def perform_testing_def)
  apply (simp add: steady_server_def collect_execution_stats_def)
  apply (simp add: calculate_results_def calculate_results_args_def mean_def seq_exn_def
      py_index_def stdev_time_arg_def percentile_arg_def mean_or_zero_def TestResult_init_def
      TestResult_fields_def)
  done

subsection \<open>C3: the percentiles\<close>




subsection \<open>C4: a query that fails\<close>



subsection \<open>C5: sampling disabled\<close>



subsection \<open>C6: hints already tested\<close>




subsection \<open>C7: one composed query\<close>

text \<open>
  C7, as the code has it. Every find of the timed phase and every explain is sent with
  the cursor that \<open>_build_query_cursor\<close> composes, and every find of the warm-up with
  that cursor after \<open>.limit(0)\<close>, which takes its limit away. The composed cursor has
  the filter and the projection of the query, its sort, skip and limit where each is
  present and truthy, and the hint where it is not empty.
\<close>

theorem phases_use_built_cursor:
  "(\<exists>n. snd (perform_warmup srv db coll q h w hist) =
          hist @ replicate n (Find db coll (cursor_limit (build_query_cursor q h) 0))) \<and>
   (\<exists>new. snd (perform_testing srv db coll q h it si hist) = hist @ new \<and>
           set new \<subseteq> {Find db coll (build_query_cursor q h),
                        Explain db coll (build_query_cursor q h)}) \<and>
   build_query_cursor q h =
     \<lparr> c_filter = q_filter q,
       c_projection = q_project q,
       c_sort = (case q_sort q of None \<Rightarrow> None | Some s \<Rightarrow> if s \<noteq> [] then Some s else None),
       c_skip = (case q_skip q of None \<Rightarrow> 0 | Some k \<Rightarrow> if k \<noteq> 0 then k else 0),
       c_limit = (case q_limit q of None \<Rightarrow> 0 | Some l \<Rightarrow> if l \<noteq> 0 then l else 0),
       c_hint = (if h \<noteq> [] then Some h else None) \<rparr>"
  unfolding perform_warmup_def perform_testing_def
  using warmup_loop_history [of srv db coll q h "nat w" hist]
    testing_loop_history [of srv db coll q h it si "nat it" 0 "([], [], [], [])" hist]
    build_query_cursor_fields [of q h]
  by blast

text \<open>
  C7 as the specification states it, that the warm-up executes the same composed query
  as the timed phase, fails for a query with a limit: the warm-up find has limit 0, the
  timed find and the explain have limit 5.
\<close>

theorem warmup_cursor_differs_counterexample:
  "snd (test_index_performance steady_server ''shop'' ''users'' limited_query [] 1 1 1 []) =
     [BuildInfo, PlanCacheClearAdmin ''shop.users'',
      Find ''shop'' ''users''
        \<lparr> c_filter = [(''status'', BStr ''active'')], c_projection = None, c_sort = None,
          c_skip = 0, c_limit = 0, c_hint = None \<rparr>,
      Find ''shop'' ''users''
        \<lparr> c_filter = [(''status'', BStr ''active'')], c_projection = None, c_sort = None,
          c_skip = 0, c_limit = 5, c_hint = None \<rparr>,
      Explain ''shop'' ''users''
        \<lparr> c_filter = [(''status'', BStr ''active'')], c_projection = None, c_sort = None,
          c_skip = 0, c_limit = 5, c_hint = None \<rparr>] \<and>
   cursor_limit (build_query_cursor limited_query []) 0 \<noteq> build_query_cursor limited_query []"
  apply (simp add: test_index_performance_history run_phases_def clear_plan_cache_steady
      perform_warmup_def perform_testing_def)
  apply (simp add: steady_server_def collect_execution_stats_def build_query_cursor_fields
      limited_query_def cursor_limit_def perform_testing_def)
  done

subsection \<open>C8: the connection loop\<close>

text \<open>
  C8. The claim is that a connection failure is followed by a sleep of
  \<open>retry_delay_base ** attempt\<close> seconds and a retry. The handler is written so, but
  main.py does not import \<open>errors\<close>: with two connection failures before a success,
  the first failure already ends the process with a \<open>NameError\<close>, no sleep taken, no
  second attempt and nothing measured.
\<close>

theorem connection_failure_raises_NameError:
  "main (\<lambda>attempt. if attempt < 2 then Inl (ConnectionFailure ''connection refused'')
                     else Inr steady_server)
        sample_args [sample_test_query]
     = (Inl (NameError ''errors''), start)"
  by (simp add: main_def max_retries_def upt_rec main_globals_def)

subsection \<open>C9: a query without results\<close>

text \<open>
  C9. The claim is that the output of a query of which no trial succeeded is an empty
  block. With the table format, which is the default, \<open>save_results\<close> raises an
  \<open>IndexError\<close> on the empty list of results: the title reads \<open>results[0]\<close>. The
  CSV and the JSON formatters do return an empty document.
\<close>

theorem table_formatter_empty_results:
  "save_results [] ''table'' = Inl (IndexError ''list index out of range'') \<and>
   save_results [] ''csv'' = Inr (CSV csv_header []) \<and>
   save_results [] ''json'' = Inr (JSON [])"
  by (simp add: save_results_def TableFormatter_format_def CSVFormatter_format_def
      JSONFormatter_format_def seq_exn_def py_index_def)

subsection \<open>C10: loading a configuration entry\<close>

text \<open>
  C10, as the code has it. \<open>from_dict\<close> raises whenever the \<open>database\<close> key or the
  \<open>collection\<close> key is missing; an entry that has both keys, and the \<open>name\<close> and
  \<open>query\<close> keys that the constructor call reads, loads with the database and the
  collection preserved, whatever their values, the empty string included.
\<close>

theorem from_dict_requires_keys:
  "(d_database data = None \<or> d_collection data = None \<longrightarrow> (\<exists>e. from_dict data = Inl e)) \<and>
   (d_database data = Some db \<and> d_collection data = Some c \<and>
    d_name data = Some n \<and> d_query data = Some q \<longrightarrow>
      (\<exists>t. from_dict data = Inr t \<and> database t = db \<and> collection t = c \<and>
           name t = n \<and> TestQuery.query t = q))"
  by (auto simp: from_dict_def)

text \<open>The theorem at an entry without a database and at a complete entry.\<close>

theorem from_dict_requires_keys_witness:
  "(\<exists>e. from_dict \<lparr> d_name = Some ''q1'', d_query = None, d_hints = None,
                     d_database = None, d_collection = Some ''users'' \<rparr> = Inl e) \<and>
   (\<exists>t. from_dict \<lparr> d_name = Some ''q1'', d_query = Some plain_query, d_hints = None,
                     d_database = Some ''shop'', d_collection = Some ''users'' \<rparr> = Inr t \<and>
        database t = ''shop'' \<and> collection t = ''users'')"
  using from_dict_requires_keys
    [of "\<lparr> d_name = Some ''q1'', d_query = None, d_hints = None,
           d_database = None, d_collection = Some ''users'' \<rparr>"]
    from_dict_requires_keys
    [of "\<lparr> d_name = Some ''q1'', d_query = Some plain_query, d_hints = None,
           d_database = Some ''shop'', d_collection = Some ''users'' \<rparr>"
        "''shop''" "''users''" "''q1''" plain_query]
  by auto

text \<open>
  C10 as the specification states it fails twice: an entry whose database is the empty
  string loads, and an entry with a database and a collection but no name does not.
\<close>

theorem from_dict_empty_database_counterexample:
  "from_dict \<lparr> d_name = Some ''q1'', d_query = Some plain_query, d_hints = None,
               d_database = Some [], d_collection = Some ''users'' \<rparr>
     = Inr \<lparr> name = ''q1'', query = plain_query, hints = [], database = [],
             collection = ''users'' \<rparr>
   \<and> from_dict \<lparr> d_name = None, d_query = Some plain_query, d_hints = None,
               d_database = Some ''shop'', d_collection = Some ''users'' \<rparr>
     = Inl (KeyError ''name'')"
  by (simp add: from_dict_def)
end
